theory Spec2Isabelle
  imports Complex_Main "HOL-Library.Word"
begin

unbundle bit_operations_syntax

section \<open>Data model\<close>

text \<open>
  The Pioneer climate codec: the enumerations of \<^verbatim>\<open>pioneer.h\<close> and the free functions of
  the codec source (temperature nibbles, XOR checksum, fixed informational messages and
  \<^verbatim>\<open>generate_message\<close>).

  An \<^verbatim>\<open>unsigned char\<close> is an 8-bit word. A \<^verbatim>\<open>double\<close> is modelled by a real number:
  the only floating-point operations of the codec are a multiplication and a division by 4,
  \<^verbatim>\<open>floor\<close>, a subtraction of the floor and comparisons with 16 and 31, all of which are
  exact on the finite doubles of moderate size the codec is used on (NaN and infinities
  are outside the model). A \<^verbatim>\<open>std::vector<unsigned char>\<close> is a list of bytes.
  \<^verbatim>\<open>operator[]\<close> of a vector does not check its index, and \<^verbatim>\<open>back()\<close> does not check
  for emptiness. Reading a table or an empty vector outside its elements is an explicit
  fault of the model; what a store outside the command body does is written out with the
  encoder below.
\<close>

type_synonym byte = "8 word"

datatype SleepMode = SleepMode_OFF | SleepMode_STANDARD | SleepMode_THE_AGED | SleepMode_CHILD

datatype WindSpeed =
    WindSpeed_AUTO | WindSpeed_ONE | WindSpeed_TWO | WindSpeed_THREE
  | WindSpeed_FOUR | WindSpeed_FIVE | WindSpeed_SIX | WindSpeed_MUTE

datatype Mode = Mode_HEAT | Mode_DEHUMIDIFY | Mode_COOL | Mode_FAN | Mode_AUTO

datatype FanUpDown =
    FanUpDown_AUTO | FanUpDown_UP_DOWN_FLOW | FanUpDown_UP_FLOW | FanUpDown_DOWN_FLOW
  | FanUpDown_TOP_FIX | FanUpDown_UPPER_FIX | FanUpDown_MIDDLE_FIX
  | FanUpDown_ABOVE_DOWN_FIX | FanUpDown_BOTTOM_FIX

datatype FanLeftRight =
    FanLeftRight_AUTO | FanLeftRight_LEFT_RIGHT_FLOW | FanLeftRight_LEFT_FLOW
  | FanLeftRight_MIDDLE_FLOW | FanLeftRight_RIGHT_FLOW | FanLeftRight_LEFT_FIX
  | FanLeftRight_LEFT_MIDDLE_FIX | FanLeftRight_MIDDLE_FIX
  | FanLeftRight_RIGHT_MIDDLE_FIX | FanLeftRight_RIGHT_FIX

text \<open>The enumerators' values: \<^verbatim>\<open>static_cast<unsigned char>(e)\<close>.\<close>

fun SleepMode_code :: "SleepMode \<Rightarrow> byte" where
  "SleepMode_code SleepMode_OFF = 0x0"
| "SleepMode_code SleepMode_STANDARD = 0x1"
| "SleepMode_code SleepMode_THE_AGED = 0x2"
| "SleepMode_code SleepMode_CHILD = 0x3"

fun WindSpeed_code :: "WindSpeed \<Rightarrow> int" where
  "WindSpeed_code WindSpeed_AUTO = 0"
| "WindSpeed_code WindSpeed_ONE = 1"
| "WindSpeed_code WindSpeed_TWO = 2"
| "WindSpeed_code WindSpeed_THREE = 3"
| "WindSpeed_code WindSpeed_FOUR = 4"
| "WindSpeed_code WindSpeed_FIVE = 5"
| "WindSpeed_code WindSpeed_SIX = 6"
| "WindSpeed_code WindSpeed_MUTE = 7"

fun Mode_code :: "Mode \<Rightarrow> byte" where
  "Mode_code Mode_HEAT = 0x1"
| "Mode_code Mode_DEHUMIDIFY = 0x2"
| "Mode_code Mode_COOL = 0x3"
| "Mode_code Mode_FAN = 0x7"
| "Mode_code Mode_AUTO = 0x8"

fun FanUpDown_code :: "FanUpDown \<Rightarrow> byte" where
  "FanUpDown_code FanUpDown_AUTO = 0x0"
| "FanUpDown_code FanUpDown_UP_DOWN_FLOW = 0x18"
| "FanUpDown_code FanUpDown_UP_FLOW = 0x10"
| "FanUpDown_code FanUpDown_DOWN_FLOW = 0x08"
| "FanUpDown_code FanUpDown_TOP_FIX = 0x01"
| "FanUpDown_code FanUpDown_UPPER_FIX = 0x02"
| "FanUpDown_code FanUpDown_MIDDLE_FIX = 0x03"
| "FanUpDown_code FanUpDown_ABOVE_DOWN_FIX = 0x04"
| "FanUpDown_code FanUpDown_BOTTOM_FIX = 0x05"

fun FanLeftRight_code :: "FanLeftRight \<Rightarrow> byte" where
  "FanLeftRight_code FanLeftRight_AUTO = 0x0"
| "FanLeftRight_code FanLeftRight_LEFT_RIGHT_FLOW = 0x08"
| "FanLeftRight_code FanLeftRight_LEFT_FLOW = 0x10"
| "FanLeftRight_code FanLeftRight_MIDDLE_FLOW = 0x18"
| "FanLeftRight_code FanLeftRight_RIGHT_FLOW = 0x20"
| "FanLeftRight_code FanLeftRight_LEFT_FIX = 0x01"
| "FanLeftRight_code FanLeftRight_LEFT_MIDDLE_FIX = 0x02"
| "FanLeftRight_code FanLeftRight_MIDDLE_FIX = 0x3"
| "FanLeftRight_code FanLeftRight_RIGHT_MIDDLE_FIX = 0x4"
| "FanLeftRight_code FanLeftRight_RIGHT_FIX = 0x5"

text \<open>
  The faults of the model: an index outside a vector (with the index), and \<^verbatim>\<open>back()\<close> on
  an empty vector.
\<close>

datatype fault = IndexOutOfRange int | EmptyVector

text \<open>
  \<^verbatim>\<open>operator[]\<close> of \<^verbatim>\<open>std::map\<close> and \<^verbatim>\<open>std::unordered_map\<close>, read for its value: a key
  that is absent is inserted with a value-initialised entry, so the lookup yields zero.
\<close>

definition map_index :: "('k \<times> 'v::zero) list \<Rightarrow> 'k \<Rightarrow> 'v" where
  "map_index m k = (case map_of m k of None \<Rightarrow> 0 | Some v \<Rightarrow> v)"

section \<open>Temperature codec\<close>

definition toNearestQuarter :: "real \<Rightarrow> real" where
  "toNearestQuarter num = of_int \<lfloor>num * 4\<rfloor> / 4"

text \<open>
  \<^verbatim>\<open>static_cast<int>(celsius)\<close> truncates towards zero (the value is within the range of
  \<^verbatim>\<open>int\<close> for every temperature the encoder lets through).
\<close>

definition double_to_int :: "real \<Rightarrow> int" where
  "double_to_int x = (if 0 \<le> x then \<lfloor>x\<rfloor> else \<lceil>x\<rceil>)"

definition final_nibble_options_enc :: "(real \<times> byte) list" where
  "final_nibble_options_enc = [(0.0, 0x0), (0.25, 0x4), (0.5, 0x8), (0.75, 0xc)]"

definition tempToPioneerHex :: "real \<Rightarrow> byte list" where
  "tempToPioneerHex celsius0 =
     (let celsius = toNearestQuarter celsius0;
          first_nibble = (word_of_int (31 - double_to_int celsius) :: byte);
          final_nibble = map_index final_nibble_options_enc (celsius - of_int \<lfloor>celsius\<rfloor>)
      in [first_nibble, final_nibble])"

definition final_nibble_options_dec :: "(byte \<times> real) list" where
  "final_nibble_options_dec = [(0x0, 0.0), (0x4, 0.25), (0x8, 0.5), (0xc, 0.75)]"

definition fromPioneerHex :: "byte \<Rightarrow> byte \<Rightarrow> real" where
  "fromPioneerHex first_nibble last_nibble =
     (31.0 - real (unat first_nibble)) + map_index final_nibble_options_dec last_nibble"

section \<open>Checksum\<close>

definition calc_xor_checksum :: "byte list \<Rightarrow> byte" where
  "calc_xor_checksum my_bytes = foldl (\<lambda>result b. result XOR b) 0 my_bytes"

definition check_xor_checksum :: "byte list \<Rightarrow> fault + bool" where
  "check_xor_checksum my_bytes =
     (if my_bytes = [] then Inl EmptyVector
      else let current_checksum = last my_bytes;
               rest = butlast my_bytes;
               result = foldl (\<lambda>result b. result XOR b) 0 rest
           in Inr (result = current_checksum))"

section \<open>Fixed informational messages\<close>

definition messages :: "byte list list" where
  "messages =
     [[0xbb, 0x00, 0x01, 0x04, 0x02, 0x01, 0x00, 0xbd],
      [0xbb, 0x00, 0x01, 0x0a, 0x03, 0x05, 0x00, 0x00, 0xb6],
      [0xbb, 0x00, 0x01, 0x09, 0x02, 0x05, 0x00, 0xb4],
      [0xbb, 0x00, 0x01, 0x0a, 0x03, 0x05, 0x00, 0x08, 0xbe]]"

text \<open>
  \<^verbatim>\<open>messages[num - 1]\<close>: the index is converted to the vector's unsigned size type, so a
  negative \<^verbatim>\<open>num - 1\<close> is as far out of range as one beyond the last element.
\<close>

definition get_unknown_message :: "int \<Rightarrow> fault + byte list" where
  "get_unknown_message num =
     (let i = num - 1
      in if 0 \<le> i \<and> i < int (length messages) then Inr (messages ! nat i)
         else Inl (IndexOutOfRange i))"

section \<open>Command encoder\<close>

text \<open>
  \<^verbatim>\<open>generate_message\<close> builds the command body by a fixed sequence of in-place updates
  \<^verbatim>\<open>command[i] = command[i] | v\<close> (and one \<^verbatim>\<open>command[i] = command[i] & v\<close>). The model
  keeps the sequence as a list of writes, in source order, and runs it on the body.

  \<^verbatim>\<open>operator[]\<close> is unchecked, so an update at an index that is not below the size of
  the vector reads the byte lying that far past the vector's elements and stores it back
  combined with \<open>v\<close>. When the combination cannot change the byte (an OR with 0x00, an
  AND with 0xff) the store writes back what it read: no memory changes, and the elements
  of the vector, which are all that the function returns, are as before. Otherwise the
  store can change memory that does not belong to the vector: that is a fault of the
  model, with the index, and nothing after it is run.
\<close>

datatype body_write = OrAt nat byte | AndAt nat byte

fun write_index :: "body_write \<Rightarrow> nat" where
  "write_index (OrAt i v) = i"
| "write_index (AndAt i v) = i"

fun exec_write :: "body_write \<Rightarrow> byte list \<Rightarrow> fault + byte list" where
  "exec_write (OrAt i v) command =
     (if i < length command then Inr (command[i := command ! i OR v])
      else if v = 0x00 then Inr command
      else Inl (IndexOutOfRange (int i)))"
| "exec_write (AndAt i v) command =
     (if i < length command then Inr (command[i := command ! i AND v])
      else if v = 0xff then Inr command
      else Inl (IndexOutOfRange (int i)))"

fun exec_writes :: "body_write list \<Rightarrow> byte list \<Rightarrow> fault + byte list" where
  "exec_writes [] command = Inr command"
| "exec_writes (w # ws) command =
     (case exec_write w command of
        Inl e \<Rightarrow> Inl e
      | Inr command' \<Rightarrow> exec_writes ws command')"

definition message_header :: "byte list" where
  "message_header = [0xbb, 0x00, 0x01, 0x03]"

definition command_template :: "byte list" where
  "command_template =
     [0x00, 0x00, 0x00, 0x00, 0x5c, 0x00, 0x04, 0x80, 0x00, 0x00, 0x00, 0x00,
      0x00, 0x00, 0x00, 0x00, 0x00, 0x00, 0x00, 0x00, 0x00, 0x00, 0x80, 0x99]"

definition speeds :: "(int \<times> byte) list" where
  "speeds = [(1, 0x2), (2, 0x06), (3, 0x03), (4, 0x07), (5, 0x05)]"

text \<open>The six flag tests, in source order.\<close>

definition flag_writes :: "bool \<Rightarrow> bool \<Rightarrow> bool \<Rightarrow> bool \<Rightarrow> bool \<Rightarrow> bool \<Rightarrow> body_write list" where
  "flag_writes is_on is_display_on is_buzzer_on is_eco is_8_deg_heater is_health_on =
     (if is_on then [OrAt 3 0x04] else []) @
     (if is_display_on then [OrAt 3 0x40] else []) @
     (if is_buzzer_on then [OrAt 3 0x20] else []) @
     (if is_eco then [OrAt 3 0x80] else []) @
     (if is_8_deg_heater then [OrAt 6 0x80] else []) @
     (if is_health_on then [OrAt 4 0x10] else [])"

definition sleep_writes :: "SleepMode \<Rightarrow> body_write list" where
  "sleep_writes sleep_mode = [OrAt 15 (SleepMode_code sleep_mode)]"

text \<open>
  The fan speed chain. \<^verbatim>\<open>command[4] & ~0xc0\<close> is computed in \<^verbatim>\<open>int\<close> and stored back
  into a byte: the low eight bits of the mask, \<open>NOT 0xc0\<close> on a byte.
\<close>

definition wind_writes :: "WindSpeed \<Rightarrow> body_write list" where
  "wind_writes wind_speed =
     (if wind_speed = WindSpeed_AUTO then []
      else if wind_speed = WindSpeed_MUTE then [OrAt 4 0x80, OrAt 6 0x02]
      else if wind_speed = WindSpeed_SIX then [OrAt 4 0x40, OrAt 6 0x05]
      else [AndAt 4 (NOT 0xc0), OrAt 6 (map_index speeds (WindSpeed_code wind_speed))])"

definition mode_writes :: "Mode \<Rightarrow> body_write list" where
  "mode_writes mode = [OrAt 4 (Mode_code mode)]"

definition temp_writes :: "real \<Rightarrow> body_write list" where
  "temp_writes temp_celsius =
     (let temp_bytes = tempToPioneerHex temp_celsius
      in [OrAt 9 (temp_bytes ! 0), OrAt 11 (temp_bytes ! 1)])"

definition up_down_writes :: "FanUpDown \<Rightarrow> body_write list" where
  "up_down_writes up_down_mode =
     (if up_down_mode = FanUpDown_UP_DOWN_FLOW \<or> up_down_mode = FanUpDown_UP_FLOW
         \<or> up_down_mode = FanUpDown_DOWN_FLOW
      then [OrAt 6 0x38] else []) @
     [OrAt 28 (FanUpDown_code up_down_mode)]"

definition left_right_writes :: "FanLeftRight \<Rightarrow> body_write list" where
  "left_right_writes left_right_mode =
     (if left_right_mode = FanLeftRight_LEFT_RIGHT_FLOW \<or> left_right_mode = FanLeftRight_LEFT_FLOW
         \<or> left_right_mode = FanLeftRight_MIDDLE_FLOW \<or> left_right_mode = FanLeftRight_RIGHT_FLOW
      then [OrAt 7 0x8] else []) @
     [OrAt 29 (FanLeftRight_code left_right_mode)]"

text \<open>
  The writes up to and including the temperature bytes (flags, sleep mode, fan speed,
  climate mode, temperature), then the two swing blocks.
\<close>

definition field_writes ::
  "Mode \<Rightarrow> real \<Rightarrow> WindSpeed \<Rightarrow> SleepMode \<Rightarrow> bool \<Rightarrow> bool \<Rightarrow> bool \<Rightarrow> bool \<Rightarrow> bool \<Rightarrow> bool \<Rightarrow> body_write list" where
  "field_writes mode temp_celsius wind_speed sleep_mode
       is_on is_display_on is_buzzer_on is_eco is_8_deg_heater is_health_on =
     flag_writes is_on is_display_on is_buzzer_on is_eco is_8_deg_heater is_health_on @
     sleep_writes sleep_mode @
     wind_writes wind_speed @
     mode_writes mode @
     temp_writes temp_celsius"

definition swing_writes :: "FanUpDown \<Rightarrow> FanLeftRight \<Rightarrow> body_write list" where
  "swing_writes up_down_mode left_right_mode =
     up_down_writes up_down_mode @ left_right_writes left_right_mode"

definition command_writes ::
  "Mode \<Rightarrow> real \<Rightarrow> WindSpeed \<Rightarrow> FanUpDown \<Rightarrow> FanLeftRight \<Rightarrow> SleepMode
     \<Rightarrow> bool \<Rightarrow> bool \<Rightarrow> bool \<Rightarrow> bool \<Rightarrow> bool \<Rightarrow> bool \<Rightarrow> body_write list" where
  "command_writes mode temp_celsius wind_speed up_down_mode left_right_mode sleep_mode
       is_on is_display_on is_buzzer_on is_eco is_8_deg_heater is_health_on =
     field_writes mode temp_celsius wind_speed sleep_mode
       is_on is_display_on is_buzzer_on is_eco is_8_deg_heater is_health_on @
     swing_writes up_down_mode left_right_mode"

text \<open>The body as it stands when the temperature bytes have been written.\<close>

definition encode_fields ::
  "Mode \<Rightarrow> real \<Rightarrow> WindSpeed \<Rightarrow> SleepMode \<Rightarrow> bool \<Rightarrow> bool \<Rightarrow> bool \<Rightarrow> bool \<Rightarrow> bool \<Rightarrow> bool
     \<Rightarrow> fault + byte list" where
  "encode_fields mode temp_celsius wind_speed sleep_mode
       is_on is_display_on is_buzzer_on is_eco is_8_deg_heater is_health_on =
     exec_writes
       (field_writes mode temp_celsius wind_speed sleep_mode
          is_on is_display_on is_buzzer_on is_eco is_8_deg_heater is_health_on)
       command_template"

text \<open>The end of the function: header, body, and the checksum of both.\<close>

definition assemble_frame :: "byte list \<Rightarrow> byte list" where
  "assemble_frame command =
     (let message = message_header @ command
      in message @ [calc_xor_checksum message])"

text \<open>
  \<^verbatim>\<open>generate_message\<close>. A temperature outside the range returns the empty vector. The
  defaults of the optional parameters are: fan speed, both swings \<open>AUTO\<close>, sleep
  \<open>OFF\<close>, \<open>is_on\<close>, \<open>is_display_on\<close> and \<open>is_buzzer_on\<close> true, \<open>is_eco\<close>,
  \<open>is_8_deg_heater\<close> and \<open>is_health_on\<close> false.
\<close>

definition generate_message ::
  "Mode \<Rightarrow> real \<Rightarrow> WindSpeed \<Rightarrow> FanUpDown \<Rightarrow> FanLeftRight \<Rightarrow> SleepMode
     \<Rightarrow> bool \<Rightarrow> bool \<Rightarrow> bool \<Rightarrow> bool \<Rightarrow> bool \<Rightarrow> bool \<Rightarrow> fault + byte list" where
  "generate_message mode temp_celsius wind_speed up_down_mode left_right_mode sleep_mode
       is_on is_display_on is_buzzer_on is_eco is_8_deg_heater is_health_on =
     (if temp_celsius > 31 \<or> temp_celsius < 16 then Inr []
      else
        case exec_writes
               (command_writes mode temp_celsius wind_speed up_down_mode left_right_mode
                  sleep_mode is_on is_display_on is_buzzer_on is_eco is_8_deg_heater
                  is_health_on)
               command_template of
          Inl e \<Rightarrow> Inl e
        | Inr command \<Rightarrow> Inr (assemble_frame command))"

subsection \<open>The encoder with the fan speed and climate mode steps exchanged\<close>

text \<open>
  The variant the specification warns against: the climate mode is OR-ed into body byte 4
  before the fan speed chain runs, everything else as in \<open>generate_message\<close>.
\<close>

definition field_writes_swapped ::
  "Mode \<Rightarrow> real \<Rightarrow> WindSpeed \<Rightarrow> SleepMode \<Rightarrow> bool \<Rightarrow> bool \<Rightarrow> bool \<Rightarrow> bool \<Rightarrow> bool \<Rightarrow> bool \<Rightarrow> body_write list" where
  "field_writes_swapped mode temp_celsius wind_speed sleep_mode
       is_on is_display_on is_buzzer_on is_eco is_8_deg_heater is_health_on =
     flag_writes is_on is_display_on is_buzzer_on is_eco is_8_deg_heater is_health_on @
     sleep_writes sleep_mode @
     mode_writes mode @
     wind_writes wind_speed @
     temp_writes temp_celsius"

definition generate_message_swapped ::
  "Mode \<Rightarrow> real \<Rightarrow> WindSpeed \<Rightarrow> FanUpDown \<Rightarrow> FanLeftRight \<Rightarrow> SleepMode
     \<Rightarrow> bool \<Rightarrow> bool \<Rightarrow> bool \<Rightarrow> bool \<Rightarrow> bool \<Rightarrow> bool \<Rightarrow> fault + byte list" where
  "generate_message_swapped mode temp_celsius wind_speed up_down_mode left_right_mode sleep_mode
       is_on is_display_on is_buzzer_on is_eco is_8_deg_heater is_health_on =
     (if temp_celsius > 31 \<or> temp_celsius < 16 then Inr []
      else
        case exec_writes
               (field_writes_swapped mode temp_celsius wind_speed sleep_mode
                  is_on is_display_on is_buzzer_on is_eco is_8_deg_heater is_health_on @
                swing_writes up_down_mode left_right_mode)
               command_template of
          Inl e \<Rightarrow> Inl e
        | Inr command \<Rightarrow> Inr (assemble_frame command))"

text \<open>
  The fan speed bit positions of the body: the top two bits of byte 4 and the low three
  bits of byte 6.
\<close>

definition fan_mask :: "nat \<Rightarrow> byte" where
  "fan_mask i = (if i = 4 then 0xc0 else if i = 6 then 0x07 else 0x00)"

text \<open>
  Two bodies agree outside the fan speed bits: same size, and every byte equal once the
  fan speed bit positions are masked out.
\<close>

definition agree_outside_fan_bits :: "byte list \<Rightarrow> byte list \<Rightarrow> bool" where
  "agree_outside_fan_bits c c' =
     (length c = length c' \<and>
      (\<forall>i<length c. c ! i AND NOT (fan_mask i) = c' ! i AND NOT (fan_mask i)))"

section \<open>Checksum: properties\<close>

lemma foldl_xor_start:
  "foldl (\<lambda>r b. r XOR b) (a::byte) xs = a XOR foldl (\<lambda>r b. r XOR b) 0 xs"
proof (induction xs arbitrary: a)
  case Nil
  show ?case by simp
next
  case (Cons x xs)
  have "foldl (\<lambda>r b. r XOR b) (a XOR x) xs = (a XOR x) XOR foldl (\<lambda>r b. r XOR b) 0 xs"
    by (rule Cons.IH)
  moreover have "foldl (\<lambda>r b. r XOR b) (0 XOR x) xs = x XOR foldl (\<lambda>r b. r XOR b) 0 xs"
    using Cons.IH[of x] by simp
  ultimately show ?case by (simp add: xor.assoc)
qed

lemma calc_xor_checksum_Cons: "calc_xor_checksum (x # xs) = x XOR calc_xor_checksum xs"
  unfolding calc_xor_checksum_def using foldl_xor_start[of x xs] by simp

lemma calc_xor_checksum_update:
  "i < length xs \<Longrightarrow> calc_xor_checksum (xs[i := v]) = calc_xor_checksum xs XOR (xs ! i) XOR v"
proof (induction xs arbitrary: i)
  case Nil
  then show ?case by simp
next
  case (Cons x xs)
  show ?case
  proof (cases i)
    case 0
    then show ?thesis
      by (auto simp: calc_xor_checksum_Cons bit_xor_iff intro!: bit_eqI)
  next
    case (Suc j)
    with Cons.prems have "j < length xs" by simp
    from Cons.IH[OF this] Suc show ?thesis
      by (auto simp: calc_xor_checksum_Cons bit_xor_iff intro!: bit_eqI)
  qed
qed

lemma check_xor_checksum_append:
  "check_xor_checksum (xs @ [c]) = Inr (calc_xor_checksum xs = c)"
  by (simp add: check_xor_checksum_def calc_xor_checksum_def)

lemma flip_bit_changes: "k < 8 \<Longrightarrow> flip_bit k (x::byte) \<noteq> x"
proof
  assume k: "k < 8" and e: "flip_bit k x = x"
  have "bit (flip_bit k x) k = (\<not> bit x k)"
    using k by (simp add: bit_flip_bit_iff)
  with e show False by simp
qed

text \<open>
  C3. Appending the checksum of any byte sequence \<open>b\<close> gives a sequence that
  \<open>check_xor_checksum\<close> accepts; flipping any single bit \<open>k\<close> of any byte \<open>i\<close> of
  \<open>b\<close> while keeping the checksum of the original \<open>b\<close> gives one that it rejects.
  (The statement needs no hypothesis that \<open>b\<close> is non-empty: with the checksum appended
  the argument never is.)
\<close>

theorem xor_checksum_detects_bit_flip:
  "check_xor_checksum (b @ [calc_xor_checksum b]) = Inr True \<and>
   (\<forall>i<length b. \<forall>k<8.
      check_xor_checksum (b[i := flip_bit k (b ! i)] @ [calc_xor_checksum b]) = Inr False)"
proof (intro conjI allI impI)
  show "check_xor_checksum (b @ [calc_xor_checksum b]) = Inr True"
    by (simp add: check_xor_checksum_append)
next
  fix i k
  assume i: "i < length b" and k: "(k::nat) < 8"
  let ?v = "flip_bit k (b ! i)"
  have "calc_xor_checksum (b[i := ?v]) = calc_xor_checksum b XOR (b ! i) XOR ?v"
    by (rule calc_xor_checksum_update[OF i])
  also have "\<dots> = flip_bit k (calc_xor_checksum b)"
    by (rule bit_eqI) (auto simp: bit_xor_iff bit_flip_bit_iff)
  finally have "calc_xor_checksum (b[i := ?v]) \<noteq> calc_xor_checksum b"
    using flip_bit_changes[OF k, of "calc_xor_checksum b"] by simp
  then show "check_xor_checksum (b[i := ?v] @ [calc_xor_checksum b]) = Inr False"
    by (simp add: check_xor_checksum_append)
qed

text \<open>The theorem at the bytes \<open>bb 01 10\<close>, bit 3 of byte 1 flipped.\<close>

theorem xor_checksum_detects_bit_flip_witness:
  "check_xor_checksum ([0xbb, 0x01, 0x10] @ [calc_xor_checksum [0xbb, 0x01, 0x10]]) = Inr True \<and>
   check_xor_checksum
     ([0xbb, 0x01, 0x10][1 := flip_bit 3 ([0xbb, 0x01, 0x10] ! 1)]
        @ [calc_xor_checksum [0xbb, 0x01, 0x10]]) = Inr False"
proof -
  note inst = xor_checksum_detects_bit_flip[of "[0xbb, 0x01, 0x10]"]
  from inst have "check_xor_checksum ([0xbb, 0x01, 0x10] @ [calc_xor_checksum [0xbb, 0x01, 0x10]])
      = Inr True"
    by (rule conjunct1)
  moreover from inst[THEN conjunct2, rule_format, of 1 3]
  have "check_xor_checksum
     ([0xbb, 0x01, 0x10][1 := flip_bit 3 ([0xbb, 0x01, 0x10] ! 1)]
        @ [calc_xor_checksum [0xbb, 0x01, 0x10]]) = Inr False"
    by simp
  ultimately show ?thesis by (rule conjI)
qed

section \<open>Temperature codec: properties\<close>

lemma toNearestQuarter_quarter:
  assumes "t = of_int n + q" "q \<in> {0, 1/4, 1/2, 3/4}"
  shows "toNearestQuarter t = t"
proof -
  from assms(2) obtain j :: int where j: "q * 4 = of_int j"
    by (auto intro: that[of 0] that[of 1] that[of 2] that[of 3])
  have scaled: "t * 4 = of_int (4 * n + j)"
    using assms(1) j by (simp add: algebra_simps)
  then have "\<lfloor>t * 4\<rfloor> = 4 * n + j" by (metis floor_of_int)
  then have "of_int \<lfloor>t * 4\<rfloor> = t * 4" using scaled by simp
  then show ?thesis by (simp add: toNearestQuarter_def)
qed

text \<open>
  C2. For every temperature \<open>t\<close> in [16, 31] whose fractional part is 0, 0.25, 0.5 or
  0.75, decoding the two bytes that \<open>tempToPioneerHex\<close> produces gives \<open>t\<close> back.
\<close>

theorem temperature_round_trip:
  assumes "16 \<le> t" "t \<le> 31" "t - of_int \<lfloor>t\<rfloor> \<in> {0, 1/4, 1/2, 3/4}"
  shows "fromPioneerHex (tempToPioneerHex t ! 0) (tempToPioneerHex t ! 1) = t"
proof -
  define n where "n = \<lfloor>t\<rfloor>"
  define q where "q = t - of_int n"
  have t: "t = of_int n + q" by (simp add: q_def)
  have q: "q \<in> {0, 1/4, 1/2, 3/4}" using assms(3) by (simp add: q_def n_def)
  have n16: "16 \<le> n" unfolding n_def using assms(1) by (simp add: le_floor_iff)
  have n31: "n \<le> 31" unfolding n_def using assms(2) by (simp add: floor_le_iff)
  have tq: "toNearestQuarter t = t" by (rule toNearestQuarter_quarter[OF t q])
  have tr: "double_to_int t = n" using assms(1) by (simp add: double_to_int_def n_def)
  have first: "tempToPioneerHex t ! 0 = word_of_int (31 - n)"
    by (simp add: tempToPioneerHex_def tq tr Let_def)
  have "(word_of_int (31 - n) :: byte) = of_nat (nat (31 - n))"
    using n31 by simp
  moreover have "nat (31 - n) < 256" using n16 by simp
  ultimately have "unat (word_of_int (31 - n) :: byte) = nat (31 - n)"
    by (simp add: unat_of_nat)
  then have d1: "31 - real (unat (tempToPioneerHex t ! 0)) = of_int n"
    using n31 first by simp
  have "tempToPioneerHex t ! 1 = map_index final_nibble_options_enc (t - of_int \<lfloor>t\<rfloor>)"
    by (simp add: tempToPioneerHex_def tq Let_def)
  then have second: "tempToPioneerHex t ! 1 = map_index final_nibble_options_enc q"
    by (simp add: q_def n_def)
  from q consider "q = 0" | "q = 1/4" | "q = 1/2" | "q = 3/4" by auto
  then have d2: "map_index final_nibble_options_dec (tempToPioneerHex t ! 1) = q"
    unfolding second
    by cases (simp_all add: map_index_def final_nibble_options_enc_def final_nibble_options_dec_def)
  show ?thesis unfolding fromPioneerHex_def using d1 d2 t by simp
qed

text \<open>The theorem at 20.25 degrees.\<close>

theorem temperature_round_trip_witness:
  "fromPioneerHex (tempToPioneerHex (81/4) ! 0) (tempToPioneerHex (81/4) ! 1) = 81/4"
  using temperature_round_trip[of "81/4"] by simp

text \<open>
  C9, as the code has it. \<open>fromPioneerHex\<close> has no error result. For a last nibble
  outside the four codes 0x0, 0x4, 0x8, 0xc the table lookup yields the default 0, and
  the function returns the number \<open>31 - first_nibble\<close>.
\<close>

theorem fromPioneerHex_unknown_nibble:
  "last_nibble \<notin> {0x0, 0x4, 0x8, 0xc} \<Longrightarrow>
   fromPioneerHex first_nibble last_nibble = 31 - real (unat first_nibble)"
  by (simp add: fromPioneerHex_def map_index_def final_nibble_options_dec_def)

theorem fromPioneerHex_unknown_nibble_witness:
  "(0x01::byte) \<notin> {0x0, 0x4, 0x8, 0xc} \<and> fromPioneerHex 0x0b 0x01 = 31 - real (unat (0x0b::byte))"
proof -
  have h: "(0x01::byte) \<notin> {0x0, 0x4, 0x8, 0xc}" by simp
  from fromPioneerHex_unknown_nibble[OF h, of "0x0b"] h show ?thesis by simp
qed

text \<open>
  C9 as stated fails: the last nibble 0x1 is none of the four codes, and decoding
  \<open>(0x0b, 0x1)\<close> yields the temperature 20, the same as \<open>(0x0b, 0x0)\<close>.
\<close>

theorem fromPioneerHex_unknown_nibble_counterexample:
  "(0x01::byte) \<notin> {0x0, 0x4, 0x8, 0xc} \<and> fromPioneerHex 0x0b 0x01 = 20 \<and>
   fromPioneerHex 0x0b 0x00 = 20"
  by (simp add: fromPioneerHex_def map_index_def final_nibble_options_dec_def)

section \<open>Fixed informational messages: properties\<close>

text \<open>
  C10. For \<open>num\<close> from 1 to 4, \<open>get_unknown_message\<close> returns a frame that
  \<open>check_xor_checksum\<close> accepts; for every other \<open>num\<close> the index \<open>num - 1\<close> is
  outside the table.
\<close>

theorem unknown_messages_checksum_valid:
  "(1 \<le> num \<and> num \<le> 4 \<longrightarrow>
      (\<exists>f. get_unknown_message num = Inr f \<and> check_xor_checksum f = Inr True)) \<and>
   (\<not> (1 \<le> num \<and> num \<le> 4) \<longrightarrow>
      get_unknown_message num = Inl (IndexOutOfRange (num - 1)))"
proof (intro conjI impI)
  assume "1 \<le> num \<and> num \<le> 4"
  then have "num = 1 \<or> num = 2 \<or> num = 3 \<or> num = 4" by arith
  then show "\<exists>f. get_unknown_message num = Inr f \<and> check_xor_checksum f = Inr True"
    by (elim disjE) (simp_all add: get_unknown_message_def messages_def check_xor_checksum_def)
next
  assume "\<not> (1 \<le> num \<and> num \<le> 4)"
  then show "get_unknown_message num = Inl (IndexOutOfRange (num - 1))"
    by (auto simp: get_unknown_message_def messages_def)
qed

theorem unknown_messages_checksum_valid_witness:
  "(\<exists>f. get_unknown_message 2 = Inr f \<and> check_xor_checksum f = Inr True) \<and>
   get_unknown_message 0 = Inl (IndexOutOfRange (- 1)) \<and>
   get_unknown_message 5 = Inl (IndexOutOfRange 4)"
  using unknown_messages_checksum_valid[of 2] unknown_messages_checksum_valid[of 0]
    unknown_messages_checksum_valid[of 5]
  by simp

section \<open>Command encoder: running the writes\<close>

lemmas encoder_defs =
  encode_fields_def field_writes_def flag_writes_def sleep_writes_def wind_writes_def
  mode_writes_def temp_writes_def command_template_def tempToPioneerHex_def
  toNearestQuarter_def double_to_int_def map_index_def final_nibble_options_enc_def
  speeds_def

lemma list_update_Cons_numeral: "(x # xs)[numeral n := y] = x # xs[pred_numeral n := y]"
  by (simp add: numeral_eq_Suc)

lemma length_command_template: "length command_template = 24"
  by (simp add: command_template_def)

lemma exec_writes_append:
  "exec_writes (ws @ vs) c =
     (case exec_writes ws c of Inl e \<Rightarrow> Inl e | Inr c' \<Rightarrow> exec_writes vs c')"
  by (induction ws arbitrary: c) (auto split: sum.splits)

lemma exec_writes_append_Inr:
  "exec_writes ws c = Inr c' \<Longrightarrow> exec_writes (ws @ vs) c = exec_writes vs c'"
  by (simp add: exec_writes_append)

lemma exec_writes_cong_middle:
  assumes "\<And>c. exec_writes m1 c = exec_writes m2 c"
  shows "exec_writes (p @ m1 @ q) c = exec_writes (p @ m2 @ q) c"
proof -
  have "exec_writes (m1 @ q) c' = exec_writes (m2 @ q) c'" for c'
    by (simp add: exec_writes_append assms)
  then show ?thesis
    by (cases "exec_writes p c") (simp_all add: exec_writes_append)
qed

lemma exec_write_in_range:
  "write_index w < length c \<Longrightarrow> \<exists>c'. exec_write w c = Inr c' \<and> length c' = length c"
  by (cases w) simp_all

lemma exec_writes_in_range:
  "\<forall>w\<in>set ws. write_index w < length c \<Longrightarrow>
   \<exists>c'. exec_writes ws c = Inr c' \<and> length c' = length c"
proof (induction ws arbitrary: c)
  case Nil
  then show ?case by simp
next
  case (Cons w ws)
  from Cons.prems have "write_index w < length c" by simp
  then obtain c1 where c1: "exec_write w c = Inr c1" "length c1 = length c"
    using exec_write_in_range by blast
  from Cons.prems c1 have "\<forall>w\<in>set ws. write_index w < length c1" by simp
  from Cons.IH[OF this] c1 show ?case by simp
qed

text \<open>Every write up to the temperature bytes has its index inside the 24-byte body.\<close>

lemma pre_writes_indices:
  "\<forall>w\<in>set (flag_writes on disp buzz eco heat health @ sleep_writes sleep). write_index w < 24"
  by (auto simp: flag_writes_def sleep_writes_def)

lemma post_writes_indices:
  "\<forall>w\<in>set (mode_writes mode @ temp_writes t). write_index w < 24"
  by (auto simp: mode_writes_def temp_writes_def Let_def)

lemma field_writes_indices:
  "\<forall>w\<in>set (field_writes mode t wind sleep on disp buzz eco heat health). write_index w < 24"
  by (auto simp: field_writes_def flag_writes_def sleep_writes_def wind_writes_def
      mode_writes_def temp_writes_def Let_def)

lemma encode_fields_succeeds:
  "\<exists>body. encode_fields mode t wind sleep on disp buzz eco heat health = Inr body
     \<and> length body = 24"
  unfolding encode_fields_def
  using exec_writes_in_range[of "field_writes mode t wind sleep on disp buzz eco heat health"
      command_template]
    field_writes_indices[of mode t wind sleep on disp buzz eco heat health]
  by (simp add: length_command_template)

text \<open>The swing codes are zero for \<open>AUTO\<close> only.\<close>

lemma FanUpDown_code_zero: "(FanUpDown_code ud = 0) = (ud = FanUpDown_AUTO)"
  by (cases ud) simp_all

lemma FanLeftRight_code_zero: "(FanLeftRight_code lr = 0) = (lr = FanLeftRight_AUTO)"
  by (cases lr) simp_all

text \<open>
  The swing blocks on a 24-byte body: with both swings \<open>AUTO\<close> the two stores at 28
  and 29 write back what they read and the body is as before; any other vertical swing
  makes the store at 28 a fault, any other horizontal swing the store at 29.
\<close>

lemma up_down_writes_exec:
  "length c = 24 \<Longrightarrow>
   exec_writes (up_down_writes ud) c
     = (if ud = FanUpDown_AUTO then Inr c else Inl (IndexOutOfRange 28))"
  by (cases ud) (simp_all add: up_down_writes_def)

lemma left_right_writes_exec:
  "length c = 24 \<Longrightarrow>
   exec_writes (left_right_writes lr) c
     = (if lr = FanLeftRight_AUTO then Inr c else Inl (IndexOutOfRange 29))"
  by (cases lr) (simp_all add: left_right_writes_def)

lemma swing_writes_exec:
  "length c = 24 \<Longrightarrow>
   exec_writes (swing_writes ud lr) c
     = (if ud \<noteq> FanUpDown_AUTO then Inl (IndexOutOfRange 28)
        else if lr \<noteq> FanLeftRight_AUTO then Inl (IndexOutOfRange 29)
        else Inr c)"
  by (simp add: swing_writes_def exec_writes_append up_down_writes_exec left_right_writes_exec)

lemma command_writes_exec:
  "exec_writes (command_writes mode t wind ud lr sleep on disp buzz eco heat health)
     command_template
   = (if ud \<noteq> FanUpDown_AUTO then Inl (IndexOutOfRange 28)
      else if lr \<noteq> FanLeftRight_AUTO then Inl (IndexOutOfRange 29)
      else encode_fields mode t wind sleep on disp buzz eco heat health)"
proof -
  obtain body where body: "encode_fields mode t wind sleep on disp buzz eco heat health = Inr body"
    "length body = 24"
    using encode_fields_succeeds by blast
  have fields: "exec_writes (field_writes mode t wind sleep on disp buzz eco heat health)
      command_template = Inr body"
    using body(1) by (simp add: encode_fields_def)
  have "exec_writes (command_writes mode t wind ud lr sleep on disp buzz eco heat health)
      command_template = exec_writes (swing_writes ud lr) body"
    unfolding command_writes_def by (rule exec_writes_append_Inr[OF fields])
  then show ?thesis
    by (simp add: swing_writes_exec[OF body(2)] body(1))
qed

lemma generate_message_out_of_range:
  "t < 16 \<or> 31 < t \<Longrightarrow>
   generate_message mode t wind ud lr sleep on disp buzz eco heat health = Inr []"
  by (auto simp: generate_message_def)

lemma generate_message_in_range:
  "16 \<le> t \<Longrightarrow> t \<le> 31 \<Longrightarrow>
   generate_message mode t wind ud lr sleep on disp buzz eco heat health
     = (if ud \<noteq> FanUpDown_AUTO then Inl (IndexOutOfRange 28)
        else if lr \<noteq> FanLeftRight_AUTO then Inl (IndexOutOfRange 29)
        else map_sum id assemble_frame
               (encode_fields mode t wind sleep on disp buzz eco heat health))"
proof -
  obtain body where body: "encode_fields mode t wind sleep on disp buzz eco heat health = Inr body"
    using encode_fields_succeeds by blast
  assume "16 \<le> t" "t \<le> 31"
  then show ?thesis
    by (simp add: generate_message_def command_writes_exec body)
qed

section \<open>Command encoder: the claims\<close>

text \<open>
  C1, as the code has it. For \<open>generate_message(HEAT, 20.0)\<close> with every optional
  parameter at its default (fan and swings \<open>AUTO\<close>, sleep \<open>OFF\<close>; \<open>is_on\<close>,
  \<open>is_display_on\<close> and \<open>is_buzzer_on\<close> true; the other three flags false), the
  writes up to the temperature bytes are exactly: 0x04, 0x40 and 0x20 into byte 3, the
  sleep code 0 into byte 15, the mode code 0x1 into byte 4, 0x0b into byte 9 and 0x0
  into byte 11. Run on the template, which is not zero (bytes 4, 6, 7, 22 and 23 are
  0x5c, 0x04, 0x80, 0x80 and 0x99), they give a 24-byte body with 0x64 at offset 3, 0x5d
  at offset 4, 0x0b at offset 9 and 0x00 at offset 11. The body has no offset 28.
\<close>

theorem encode_fields_heat_20:
  "field_writes Mode_HEAT 20 WindSpeed_AUTO SleepMode_OFF True True True False False False
     = [OrAt 3 0x04, OrAt 3 0x40, OrAt 3 0x20, OrAt 15 0x0, OrAt 4 0x1, OrAt 9 0x0b, OrAt 11 0x0] \<and>
   encode_fields Mode_HEAT 20 WindSpeed_AUTO SleepMode_OFF True True True False False False
     = Inr [0x00, 0x00, 0x00, 0x64, 0x5d, 0x00, 0x04, 0x80, 0x00, 0x0b, 0x00, 0x00,
            0x00, 0x00, 0x00, 0x00, 0x00, 0x00, 0x00, 0x00, 0x00, 0x00, 0x80, 0x99]"
  by (simp add: encoder_defs list_update_Cons_numeral)

text \<open>
  C1 as stated fails. The result of the call is not the 29-byte sequence of the claim
  (a zeroed body with 0x04, 0x01, 0x0b and 0x00 at offsets 3, 4, 9 and 11, and its
  checksum 0xb7). With both swings \<open>AUTO\<close> the stores at 28 and 29 write back what
  they read, and the call returns the header, the body built up to the temperature bytes
  and the checksum 0x16: the body has 0x64 and 0x5d at offsets 3 and 4, not 0x04 and
  0x01.
\<close>

theorem generate_message_heat_20_counterexample:
  "generate_message Mode_HEAT 20 WindSpeed_AUTO FanUpDown_AUTO FanLeftRight_AUTO SleepMode_OFF
       True True True False False False
     \<noteq> Inr [0xbb, 0x00, 0x01, 0x03,
             0x00, 0x00, 0x00, 0x04, 0x01, 0x00, 0x00, 0x00, 0x00, 0x0b, 0x00, 0x00,
             0x00, 0x00, 0x00, 0x00, 0x00, 0x00, 0x00, 0x00, 0x00, 0x00, 0x00, 0x00,
             0xb7] \<and>
   generate_message Mode_HEAT 20 WindSpeed_AUTO FanUpDown_AUTO FanLeftRight_AUTO SleepMode_OFF
       True True True False False False
     = Inr [0xbb, 0x00, 0x01, 0x03,
            0x00, 0x00, 0x00, 0x64, 0x5d, 0x00, 0x04, 0x80, 0x00, 0x0b, 0x00, 0x00,
            0x00, 0x00, 0x00, 0x00, 0x00, 0x00, 0x00, 0x00, 0x00, 0x00, 0x80, 0x99,
            0x16] \<and>
   map_sum id (\<lambda>body. (body ! 3, body ! 4))
       (encode_fields Mode_HEAT 20 WindSpeed_AUTO SleepMode_OFF True True True False False False)
     = Inr (0x64, 0x5d)"
proof -
  have body: "encode_fields Mode_HEAT 20 WindSpeed_AUTO SleepMode_OFF
      True True True False False False
    = Inr [0x00, 0x00, 0x00, 0x64, 0x5d, 0x00, 0x04, 0x80, 0x00, 0x0b, 0x00, 0x00,
           0x00, 0x00, 0x00, 0x00, 0x00, 0x00, 0x00, 0x00, 0x00, 0x00, 0x80, 0x99]"
    by (simp add: encoder_defs list_update_Cons_numeral)
  have "generate_message Mode_HEAT 20 WindSpeed_AUTO FanUpDown_AUTO FanLeftRight_AUTO
      SleepMode_OFF True True True False False False
    = map_sum id assemble_frame
        (encode_fields Mode_HEAT 20 WindSpeed_AUTO SleepMode_OFF
           True True True False False False)"
    using generate_message_in_range[of 20 Mode_HEAT WindSpeed_AUTO FanUpDown_AUTO
        FanLeftRight_AUTO SleepMode_OFF True True True False False False]
    by simp
  then have frame: "generate_message Mode_HEAT 20 WindSpeed_AUTO FanUpDown_AUTO FanLeftRight_AUTO
      SleepMode_OFF True True True False False False
    = Inr [0xbb, 0x00, 0x01, 0x03,
           0x00, 0x00, 0x00, 0x64, 0x5d, 0x00, 0x04, 0x80, 0x00, 0x0b, 0x00, 0x00,
           0x00, 0x00, 0x00, 0x00, 0x00, 0x00, 0x00, 0x00, 0x00, 0x00, 0x80, 0x99,
           0x16]"
    by (simp add: body assemble_frame_def message_header_def calc_xor_checksum_def)
  show ?thesis
    by (simp add: frame body)
qed

text \<open>
  C4. For a temperature below 16 or above 31 \<open>generate_message\<close> returns the empty
  vector. For a temperature in [16, 31] it produces a frame when both swings are
  \<open>AUTO\<close>: the 24-byte body built up to the temperature bytes, between the header and
  the checksum. With any other vertical swing the store \<open>command[28]\<close> changes memory
  outside the 24-byte body, and with vertical swing \<open>AUTO\<close> and any other horizontal
  swing the store \<open>command[29]\<close> does: on those arguments no frame is defined.
\<close>

theorem generate_message_range_behaviour:
  "(t < 16 \<or> 31 < t \<longrightarrow>
      generate_message mode t wind ud lr sleep on disp buzz eco heat health = Inr []) \<and>
   (16 \<le> t \<and> t \<le> 31 \<and> ud = FanUpDown_AUTO \<and> lr = FanLeftRight_AUTO \<longrightarrow>
      (\<exists>body. encode_fields mode t wind sleep on disp buzz eco heat health = Inr body \<and>
         length body = 24 \<and>
         generate_message mode t wind ud lr sleep on disp buzz eco heat health
           = Inr (assemble_frame body))) \<and>
   (16 \<le> t \<and> t \<le> 31 \<and> ud \<noteq> FanUpDown_AUTO \<longrightarrow>
      generate_message mode t wind ud lr sleep on disp buzz eco heat health
        = Inl (IndexOutOfRange 28)) \<and>
   (16 \<le> t \<and> t \<le> 31 \<and> ud = FanUpDown_AUTO \<and> lr \<noteq> FanLeftRight_AUTO \<longrightarrow>
      generate_message mode t wind ud lr sleep on disp buzz eco heat health
        = Inl (IndexOutOfRange 29))"
proof (intro conjI impI)
  assume "t < 16 \<or> 31 < t"
  then show "generate_message mode t wind ud lr sleep on disp buzz eco heat health = Inr []"
    by (rule generate_message_out_of_range)
next
  assume h: "16 \<le> t \<and> t \<le> 31 \<and> ud = FanUpDown_AUTO \<and> lr = FanLeftRight_AUTO"
  obtain body where body: "encode_fields mode t wind sleep on disp buzz eco heat health = Inr body"
    "length body = 24"
    using encode_fields_succeeds by blast
  have "generate_message mode t wind ud lr sleep on disp buzz eco heat health
      = Inr (assemble_frame body)"
    using h generate_message_in_range[of t mode wind ud lr sleep on disp buzz eco heat health]
    by (simp add: body(1))
  with body show "\<exists>body. encode_fields mode t wind sleep on disp buzz eco heat health = Inr body \<and>
         length body = 24 \<and>
         generate_message mode t wind ud lr sleep on disp buzz eco heat health
           = Inr (assemble_frame body)"
    by blast
next
  assume "16 \<le> t \<and> t \<le> 31 \<and> ud \<noteq> FanUpDown_AUTO"
  then show "generate_message mode t wind ud lr sleep on disp buzz eco heat health
        = Inl (IndexOutOfRange 28)"
    using generate_message_in_range[of t mode wind ud lr sleep on disp buzz eco heat health]
    by simp
next
  assume "16 \<le> t \<and> t \<le> 31 \<and> ud = FanUpDown_AUTO \<and> lr \<noteq> FanLeftRight_AUTO"
  then show "generate_message mode t wind ud lr sleep on disp buzz eco heat health
        = Inl (IndexOutOfRange 29)"
    using generate_message_in_range[of t mode wind ud lr sleep on disp buzz eco heat health]
    by simp
qed

text \<open>
  The theorem at 15.5 and 31.5 degrees (rejected), at 16 and 31 degrees with both swings
  \<open>AUTO\<close> (a frame), at 20 degrees with vertical swing \<open>UP_DOWN_FLOW\<close> (code 0x18
  stored at index 28) and at 20 degrees with horizontal swing \<open>LEFT_FIX\<close> (code 0x01
  stored at index 29).
\<close>

theorem generate_message_range_behaviour_witness:
  "generate_message Mode_HEAT (31/2) WindSpeed_AUTO FanUpDown_AUTO FanLeftRight_AUTO
       SleepMode_OFF True True True False False False = Inr [] \<and>
   generate_message Mode_HEAT (63/2) WindSpeed_AUTO FanUpDown_AUTO FanLeftRight_AUTO
       SleepMode_OFF True True True False False False = Inr [] \<and>
   (\<exists>body. generate_message Mode_HEAT 16 WindSpeed_AUTO FanUpDown_AUTO FanLeftRight_AUTO
       SleepMode_OFF True True True False False False = Inr (assemble_frame body) \<and>
       length body = 24) \<and>
   (\<exists>body. generate_message Mode_HEAT 31 WindSpeed_AUTO FanUpDown_AUTO FanLeftRight_AUTO
       SleepMode_OFF True True True False False False = Inr (assemble_frame body) \<and>
       length body = 24) \<and>
   generate_message Mode_HEAT 20 WindSpeed_AUTO FanUpDown_UP_DOWN_FLOW FanLeftRight_AUTO
       SleepMode_OFF True True True False False False = Inl (IndexOutOfRange 28) \<and>
   generate_message Mode_HEAT 20 WindSpeed_AUTO FanUpDown_AUTO FanLeftRight_LEFT_FIX
       SleepMode_OFF True True True False False False = Inl (IndexOutOfRange 29)"
proof -
  note inst = generate_message_range_behaviour[where mode = Mode_HEAT
      and wind = WindSpeed_AUTO and sleep = SleepMode_OFF and on = True and disp = True
      and buzz = True and eco = False and heat = False and health = False]
  have a: "generate_message Mode_HEAT (31/2) WindSpeed_AUTO FanUpDown_AUTO FanLeftRight_AUTO
       SleepMode_OFF True True True False False False = Inr []"
    using inst[where t = "31/2" and ud = FanUpDown_AUTO and lr = FanLeftRight_AUTO] by simp
  have b: "generate_message Mode_HEAT (63/2) WindSpeed_AUTO FanUpDown_AUTO FanLeftRight_AUTO
       SleepMode_OFF True True True False False False = Inr []"
    using inst[where t = "63/2" and ud = FanUpDown_AUTO and lr = FanLeftRight_AUTO] by simp
  have c: "\<exists>body. generate_message Mode_HEAT 16 WindSpeed_AUTO FanUpDown_AUTO FanLeftRight_AUTO
       SleepMode_OFF True True True False False False = Inr (assemble_frame body) \<and>
       length body = 24"
    using inst[where t = 16 and ud = FanUpDown_AUTO and lr = FanLeftRight_AUTO] by auto
  have d: "\<exists>body. generate_message Mode_HEAT 31 WindSpeed_AUTO FanUpDown_AUTO FanLeftRight_AUTO
       SleepMode_OFF True True True False False False = Inr (assemble_frame body) \<and>
       length body = 24"
    using inst[where t = 31 and ud = FanUpDown_AUTO and lr = FanLeftRight_AUTO] by auto
  have e: "generate_message Mode_HEAT 20 WindSpeed_AUTO FanUpDown_UP_DOWN_FLOW FanLeftRight_AUTO
       SleepMode_OFF True True True False False False = Inl (IndexOutOfRange 28)"
    using inst[where t = 20 and ud = FanUpDown_UP_DOWN_FLOW and lr = FanLeftRight_AUTO] by simp
  have f: "generate_message Mode_HEAT 20 WindSpeed_AUTO FanUpDown_AUTO FanLeftRight_LEFT_FIX
       SleepMode_OFF True True True False False False = Inl (IndexOutOfRange 29)"
    using inst[where t = 20 and ud = FanUpDown_AUTO and lr = FanLeftRight_LEFT_FIX] by simp
  from a b c d e f show ?thesis by blast
qed

text \<open>
  C5. The body has 24 bytes. For every choice of arguments the write sequence of
  \<open>generate_message\<close> contains a write at index 28 and a write at index 29, neither of
  which is below 24. Run on the template, the sequence changes memory outside the body
  at index 28 for every vertical swing but \<open>AUTO\<close>, and at index 29 for vertical swing
  \<open>AUTO\<close> and every horizontal swing but \<open>AUTO\<close>; with both swings \<open>AUTO\<close> the two
  stores past the end write back what they read and leave the body built up to the
  temperature bytes.
\<close>

theorem swing_writes_out_of_bounds:
  "length command_template = 24 \<and>
   OrAt 28 (FanUpDown_code ud)
     \<in> set (command_writes mode t wind ud lr sleep on disp buzz eco heat health) \<and>
   OrAt 29 (FanLeftRight_code lr)
     \<in> set (command_writes mode t wind ud lr sleep on disp buzz eco heat health) \<and>
   \<not> 28 < length command_template \<and> \<not> 29 < length command_template \<and>
   exec_writes (command_writes mode t wind ud lr sleep on disp buzz eco heat health)
     command_template
   = (if ud \<noteq> FanUpDown_AUTO then Inl (IndexOutOfRange 28)
      else if lr \<noteq> FanLeftRight_AUTO then Inl (IndexOutOfRange 29)
      else encode_fields mode t wind sleep on disp buzz eco heat health)"
proof -
  have "OrAt 28 (FanUpDown_code ud)
      \<in> set (command_writes mode t wind ud lr sleep on disp buzz eco heat health)"
    by (simp add: command_writes_def swing_writes_def up_down_writes_def)
  moreover have "OrAt 29 (FanLeftRight_code lr)
      \<in> set (command_writes mode t wind ud lr sleep on disp buzz eco heat health)"
    by (simp add: command_writes_def swing_writes_def left_right_writes_def)
  ultimately show ?thesis
    by (simp add: length_command_template command_writes_exec)
qed

subsection \<open>Frame assembly\<close>

text \<open>
  C6, as the code has it. The frame assembled from a body is the fixed header
  \<open>bb 00 01 03\<close>, the body, and one checksum byte: its final byte is the XOR-fold of
  all preceding bytes (so \<open>check_xor_checksum\<close> accepts it) and its length is
  4 + the body length + 1, which is 29 for a 24-byte body. The fourth header byte is
  the constant 0x03 whatever the body: it is not a length.
\<close>

theorem assemble_frame_invariant:
  "check_xor_checksum (assemble_frame command) = Inr True \<and>
   last (assemble_frame command) = calc_xor_checksum (butlast (assemble_frame command)) \<and>
   take 4 (assemble_frame command) = [0xbb, 0x00, 0x01, 0x03] \<and>
   assemble_frame command ! 3 = 0x03 \<and>
   length (assemble_frame command) = 4 + length command + 1"
  by (simp add: assemble_frame_def Let_def check_xor_checksum_def calc_xor_checksum_def
      message_header_def)

text \<open>
  C6 as stated fails on the length byte. For the body of \<open>generate_message(HEAT, 20.0)\<close>
  the fourth byte of the assembled frame is 3, while the body length plus 1 is 25; the
  frame has 29 bytes, not 4 + 3.
\<close>

theorem assemble_frame_length_byte_counterexample:
  "map_sum id
     (\<lambda>body. (unat (assemble_frame body ! 3), length body + 1, length (assemble_frame body)))
     (encode_fields Mode_HEAT 20 WindSpeed_AUTO SleepMode_OFF True True True False False False)
   = Inr (3, 25, 29)"
  by (simp add: encoder_defs list_update_Cons_numeral assemble_frame_def message_header_def)

subsection \<open>Fan speed and the other fields\<close>

lemma agree_exec_write:
  assumes "agree_outside_fan_bits c c'"
  shows "rel_sum (=) agree_outside_fan_bits (exec_write w c) (exec_write w c')"
proof -
  from assms have len: "length c = length c'"
    and eq: "\<And>i. i < length c \<Longrightarrow> c ! i AND NOT (fan_mask i) = c' ! i AND NOT (fan_mask i)"
    by (simp_all add: agree_outside_fan_bits_def)
  show ?thesis
  proof (cases w)
    case (OrAt j v)
    show ?thesis
    proof (cases "j < length c")
      case True
      have "(c ! j OR v) AND NOT (fan_mask j) = (c' ! j OR v) AND NOT (fan_mask j)"
        using eq[OF True] by (simp add: bit.conj_disj_distrib2)
      then show ?thesis using OrAt True len eq
        by (auto simp: agree_outside_fan_bits_def nth_list_update)
    next
      case False
      then show ?thesis using OrAt len assms by simp
    qed
  next
    case (AndAt j v)
    show ?thesis
    proof (cases "j < length c")
      case True
      have "(c ! j AND v) AND NOT (fan_mask j) = (c ! j AND NOT (fan_mask j)) AND v"
        by (simp add: ac_simps)
      moreover have "(c' ! j AND v) AND NOT (fan_mask j) = (c' ! j AND NOT (fan_mask j)) AND v"
        by (simp add: ac_simps)
      ultimately have "(c ! j AND v) AND NOT (fan_mask j) = (c' ! j AND v) AND NOT (fan_mask j)"
        using eq[OF True] by simp
      then show ?thesis using AndAt True len eq
        by (auto simp: agree_outside_fan_bits_def nth_list_update)
    next
      case False
      then show ?thesis using AndAt len assms by simp
    qed
  qed
qed

lemma agree_exec_writes:
  "agree_outside_fan_bits c c' \<Longrightarrow>
   rel_sum (=) agree_outside_fan_bits (exec_writes ws c) (exec_writes ws c')"
proof (induction ws arbitrary: c c')
  case Nil
  then show ?case by simp
next
  case (Cons w ws)
  from agree_exec_write[OF Cons.prems, of w] show ?case
    by (cases "exec_write w c"; cases "exec_write w c'") (simp_all add: Cons.IH)
qed

text \<open>The fan speed chain touches the fan speed bits only.\<close>

lemma agree_wind_writes:
  assumes "6 < length c"
  shows "\<exists>c'. exec_writes (wind_writes wind) c = Inr c' \<and> agree_outside_fan_bits c' c"
proof -
  have four: "4 < length c" using assms by simp
  have keep4: "(x OR 0x80) AND - 193 = x AND - 193" "(x OR 0x40) AND - 193 = x AND - 193"
    for x :: byte
    by (simp_all add: bit.conj_disj_distrib2)
  have keep6: "(x OR 2) AND - 8 = x AND - 8" "(x OR 3) AND - 8 = x AND - 8"
    "(x OR 5) AND - 8 = x AND - 8" "(x OR 6) AND - 8 = x AND - 8"
    "(x OR 7) AND - 8 = x AND - 8" for x :: byte
    by (simp_all add: bit.conj_disj_distrib2)
  show ?thesis using assms four
    by (cases wind)
      (auto simp: wind_writes_def agree_outside_fan_bits_def nth_list_update fan_mask_def
        map_index_def speeds_def keep4 keep6 and.assoc)
qed

text \<open>
  The bodies built up to the temperature bytes with a given fan speed and with fan speed
  \<open>AUTO\<close>, all other fields the same, agree outside the fan speed bits.
\<close>

lemma fan_speed_bodies_agree:
  "\<exists>cw c0.
     encode_fields mode t wind sleep on disp buzz eco heat health = Inr cw \<and>
     encode_fields mode t WindSpeed_AUTO sleep on disp buzz eco heat health = Inr c0 \<and>
     length cw = 24 \<and> length c0 = 24 \<and>
     (\<forall>i<24. cw ! i AND NOT (fan_mask i) = c0 ! i AND NOT (fan_mask i))"
proof -
  let ?pre = "flag_writes on disp buzz eco heat health @ sleep_writes sleep"
  let ?post = "mode_writes mode @ temp_writes t"
  have shape: "field_writes mode t w sleep on disp buzz eco heat health
      = ?pre @ wind_writes w @ ?post" for w
    by (simp add: field_writes_def)
  obtain c1 where c1: "exec_writes ?pre command_template = Inr c1" "length c1 = 24"
    using exec_writes_in_range[of ?pre command_template]
      pre_writes_indices[of on disp buzz eco heat health sleep]
    by (auto simp: length_command_template)
  obtain c2 where c2: "exec_writes (wind_writes wind) c1 = Inr c2" "agree_outside_fan_bits c2 c1"
    using agree_wind_writes[of c1 wind] c1(2) by auto
  then have len2: "length c2 = 24" using c1(2) by (simp add: agree_outside_fan_bits_def)
  obtain cw where cw: "exec_writes ?post c2 = Inr cw" "length cw = 24"
    using exec_writes_in_range[of ?post c2] post_writes_indices[of mode t] len2 by auto
  obtain c0 where c0: "exec_writes ?post c1 = Inr c0" "length c0 = 24"
    using exec_writes_in_range[of ?post c1] post_writes_indices[of mode t] c1(2) by auto
  have "agree_outside_fan_bits cw c0"
    using agree_exec_writes[OF c2(2), of ?post] cw(1) c0(1) by simp
  then have bits: "\<forall>i<24. cw ! i AND NOT (fan_mask i) = c0 ! i AND NOT (fan_mask i)"
    using cw(2) by (simp add: agree_outside_fan_bits_def)
  have "exec_writes (?pre @ wind_writes wind @ ?post) command_template
      = exec_writes (wind_writes wind @ ?post) c1"
    by (rule exec_writes_append_Inr[OF c1(1)])
  also have "\<dots> = exec_writes ?post c2"
    by (rule exec_writes_append_Inr[OF c2(1)])
  finally have ew: "encode_fields mode t wind sleep on disp buzz eco heat health = Inr cw"
    unfolding encode_fields_def shape by (simp only: cw(1))
  have "exec_writes (?pre @ wind_writes WindSpeed_AUTO @ ?post) command_template
      = exec_writes (wind_writes WindSpeed_AUTO @ ?post) c1"
    by (rule exec_writes_append_Inr[OF c1(1)])
  also have "\<dots> = exec_writes ?post c1"
    by (simp add: wind_writes_def)
  finally have e0: "encode_fields mode t WindSpeed_AUTO sleep on disp buzz eco heat health = Inr c0"
    unfolding encode_fields_def shape by (simp only: c0(1))
  show ?thesis using ew e0 cw(2) c0(2) bits by blast
qed

text \<open>The frame holds the header at offsets 0 to 3 and body byte \<open>i\<close> at offset \<open>4 + i\<close>.\<close>

lemma assemble_frame_length: "length (assemble_frame c) = length c + 5"
  by (simp add: assemble_frame_def Let_def message_header_def)

lemma assemble_frame_take_header: "take 4 (assemble_frame c) = message_header"
  by (simp add: assemble_frame_def Let_def message_header_def)

lemma assemble_frame_nth_body: "i < length c \<Longrightarrow> assemble_frame c ! (4 + i) = c ! i"
  by (simp add: assemble_frame_def Let_def message_header_def nth_append)

text \<open>
  C7. Encoding with only the fan speed set (\<open>THREE\<close> in particular; any mode,
  temperature, sleep mode and flags, both swings at their default \<open>AUTO\<close>) leaves the
  mode, temperature and swing regions as they are in the encoding with fan speed
  \<open>AUTO\<close>. The two bodies built up to the temperature bytes exist, have 24 bytes and
  agree in every bit outside the fan speed bit positions (bits 0xc0 of byte 4 and bits
  0x07 of byte 6). For a temperature in [16, 31] both calls return a 29-byte frame, the
  two frames have the same header, and at every body offset \<open>i\<close> (frame offset
  \<open>4 + i\<close>) they agree in every bit outside the fan speed bit positions.
\<close>

theorem fan_speed_field_independence:
  "(\<exists>cw c0.
      encode_fields mode t wind sleep on disp buzz eco heat health = Inr cw \<and>
      encode_fields mode t WindSpeed_AUTO sleep on disp buzz eco heat health = Inr c0 \<and>
      length cw = 24 \<and> length c0 = 24 \<and>
      (\<forall>i<24. cw ! i AND NOT (fan_mask i) = c0 ! i AND NOT (fan_mask i))) \<and>
   (16 \<le> t \<and> t \<le> 31 \<longrightarrow>
      (\<exists>fw f0.
         generate_message mode t wind FanUpDown_AUTO FanLeftRight_AUTO sleep
             on disp buzz eco heat health = Inr fw \<and>
         generate_message mode t WindSpeed_AUTO FanUpDown_AUTO FanLeftRight_AUTO sleep
             on disp buzz eco heat health = Inr f0 \<and>
         length fw = 29 \<and> length f0 = 29 \<and> take 4 fw = take 4 f0 \<and>
         (\<forall>i<24. fw ! (4 + i) AND NOT (fan_mask i) = f0 ! (4 + i) AND NOT (fan_mask i))))"
proof (intro conjI impI)
  show "\<exists>cw c0.
      encode_fields mode t wind sleep on disp buzz eco heat health = Inr cw \<and>
      encode_fields mode t WindSpeed_AUTO sleep on disp buzz eco heat health = Inr c0 \<and>
      length cw = 24 \<and> length c0 = 24 \<and>
      (\<forall>i<24. cw ! i AND NOT (fan_mask i) = c0 ! i AND NOT (fan_mask i))"
    by (rule fan_speed_bodies_agree)
next
  assume range: "16 \<le> t \<and> t \<le> 31"
  obtain cw c0 where
    bw: "encode_fields mode t wind sleep on disp buzz eco heat health = Inr cw"
    and b0: "encode_fields mode t WindSpeed_AUTO sleep on disp buzz eco heat health = Inr c0"
    and lw: "length cw = 24" and l0: "length c0 = 24"
    and bits: "\<forall>i<24. cw ! i AND NOT (fan_mask i) = c0 ! i AND NOT (fan_mask i)"
    using fan_speed_bodies_agree[of mode t wind sleep on disp buzz eco heat health] by blast
  have fw: "generate_message mode t wind FanUpDown_AUTO FanLeftRight_AUTO sleep
      on disp buzz eco heat health = Inr (assemble_frame cw)"
    using range
      generate_message_in_range[of t mode wind FanUpDown_AUTO FanLeftRight_AUTO sleep
        on disp buzz eco heat health]
    by (simp add: bw)
  have f0: "generate_message mode t WindSpeed_AUTO FanUpDown_AUTO FanLeftRight_AUTO sleep
      on disp buzz eco heat health = Inr (assemble_frame c0)"
    using range
      generate_message_in_range[of t mode WindSpeed_AUTO FanUpDown_AUTO FanLeftRight_AUTO sleep
        on disp buzz eco heat health]
    by (simp add: b0)
  have len: "length (assemble_frame cw) = 29" "length (assemble_frame c0) = 29"
    by (simp_all add: assemble_frame_length lw l0)
  have hdr: "take 4 (assemble_frame cw) = take 4 (assemble_frame c0)"
    by (simp add: assemble_frame_take_header)
  have "assemble_frame cw ! (4 + i) AND NOT (fan_mask i)
      = assemble_frame c0 ! (4 + i) AND NOT (fan_mask i)" if "i < 24" for i
    using that bits by (simp add: assemble_frame_nth_body lw l0)
  then have body: "\<forall>i<24. assemble_frame cw ! (4 + i) AND NOT (fan_mask i)
      = assemble_frame c0 ! (4 + i) AND NOT (fan_mask i)"
    by blast
  from fw f0 len hdr body
  show "\<exists>fw f0.
         generate_message mode t wind FanUpDown_AUTO FanLeftRight_AUTO sleep
             on disp buzz eco heat health = Inr fw \<and>
         generate_message mode t WindSpeed_AUTO FanUpDown_AUTO FanLeftRight_AUTO sleep
             on disp buzz eco heat health = Inr f0 \<and>
         length fw = 29 \<and> length f0 = 29 \<and> take 4 fw = take 4 f0 \<and>
         (\<forall>i<24. fw ! (4 + i) AND NOT (fan_mask i) = f0 ! (4 + i) AND NOT (fan_mask i))"
    by blast
qed

text \<open>
  The theorem at fan speed \<open>THREE\<close>, mode \<open>HEAT\<close>, 20 degrees and the default flags:
  the two frames exist and agree at the temperature byte (body offset 9), at the mode
  byte (body offset 4) outside bits 0xc0 and at body offset 6 outside bits 0x07.
\<close>

theorem fan_speed_field_independence_witness:
  "\<exists>fw f0.
     generate_message Mode_HEAT 20 WindSpeed_THREE FanUpDown_AUTO FanLeftRight_AUTO
         SleepMode_OFF True True True False False False = Inr fw \<and>
     generate_message Mode_HEAT 20 WindSpeed_AUTO FanUpDown_AUTO FanLeftRight_AUTO
         SleepMode_OFF True True True False False False = Inr f0 \<and>
     length fw = 29 \<and> length f0 = 29 \<and>
     fw ! (4 + 9) = f0 ! (4 + 9) \<and>
     fw ! (4 + 4) AND NOT 0xc0 = f0 ! (4 + 4) AND NOT 0xc0 \<and>
     fw ! (4 + 6) AND NOT 0x07 = f0 ! (4 + 6) AND NOT 0x07"
proof -
  have range: "(16::real) \<le> 20 \<and> (20::real) \<le> 31" by simp
  obtain fw f0 where
    r: "generate_message Mode_HEAT 20 WindSpeed_THREE FanUpDown_AUTO FanLeftRight_AUTO
          SleepMode_OFF True True True False False False = Inr fw"
       "generate_message Mode_HEAT 20 WindSpeed_AUTO FanUpDown_AUTO FanLeftRight_AUTO
          SleepMode_OFF True True True False False False = Inr f0"
       "length fw = 29" "length f0 = 29"
    and bits: "\<forall>i<24. fw ! (4 + i) AND NOT (fan_mask i) = f0 ! (4 + i) AND NOT (fan_mask i)"
    using fan_speed_field_independence[of Mode_HEAT 20 WindSpeed_THREE SleepMode_OFF
        True True True False False False, THEN conjunct2, rule_format, OF range]
    by blast
  have "fw ! (4 + 9) AND NOT (fan_mask 9) = f0 ! (4 + 9) AND NOT (fan_mask 9)"
    "fw ! (4 + 4) AND NOT (fan_mask 4) = f0 ! (4 + 4) AND NOT (fan_mask 4)"
    "fw ! (4 + 6) AND NOT (fan_mask 6) = f0 ! (4 + 6) AND NOT (fan_mask 6)"
    using bits[rule_format, of 9] bits[rule_format, of 4] bits[rule_format, of 6]
    by simp_all
  then have "fw ! (4 + 9) = f0 ! (4 + 9)"
    "fw ! (4 + 4) AND NOT 0xc0 = f0 ! (4 + 4) AND NOT 0xc0"
    "fw ! (4 + 6) AND NOT 0x07 = f0 ! (4 + 6) AND NOT 0x07"
    by (simp_all add: fan_mask_def)
  with r show ?thesis by blast
qed

subsection \<open>The order of the fan speed and climate mode steps\<close>

lemma mode_code_low: "Mode_code mode AND - 193 = Mode_code mode"
  by (cases mode) simp_all

lemma mode_wind_commute:
  "exec_writes (mode_writes mode @ wind_writes wind) c
     = exec_writes (wind_writes wind @ mode_writes mode) c"
proof -
  have clr: "(x OR Mode_code mode) AND - 193 = (x AND - 193) OR Mode_code mode" for x :: byte
    by (simp add: bit.conj_disj_distrib2 mode_code_low)
  have sw: "(x OR Mode_code mode) OR v = (x OR v) OR Mode_code mode" for x v :: byte
    by (simp add: ac_simps)
  show ?thesis
    by (cases wind)
      (auto simp: mode_writes_def wind_writes_def clr sw list_update_swap[of 4 6])
qed

lemma field_writes_swapped_exec:
  "exec_writes (field_writes_swapped mode t wind sleep on disp buzz eco heat health) c
     = exec_writes (field_writes mode t wind sleep on disp buzz eco heat health) c"
proof -
  let ?pre = "flag_writes on disp buzz eco heat health @ sleep_writes sleep"
  have "exec_writes (?pre @ (mode_writes mode @ wind_writes wind) @ temp_writes t) c
      = exec_writes (?pre @ (wind_writes wind @ mode_writes mode) @ temp_writes t) c"
    by (rule exec_writes_cong_middle) (rule mode_wind_commute)
  then show ?thesis by (simp add: field_writes_swapped_def field_writes_def)
qed

text \<open>
  C8, as the code has it. The order of the two steps makes no difference: every mode
  code lies below bit 6, and the fan speed chain only sets or clears bits 6 and 7 of byte
  4. For every input and every starting body, OR-ing the mode into byte 4 before the fan
  speed chain gives the same body as the implemented order, and the encoder with the two
  steps exchanged returns what \<open>generate_message\<close> returns.
\<close>

theorem swapped_order_equivalent:
  "exec_writes (mode_writes mode @ wind_writes wind) c
     = exec_writes (wind_writes wind @ mode_writes mode) c \<and>
   exec_writes (field_writes_swapped mode t wind sleep on disp buzz eco heat health) c
     = exec_writes (field_writes mode t wind sleep on disp buzz eco heat health) c \<and>
   generate_message_swapped mode t wind ud lr sleep on disp buzz eco heat health
     = generate_message mode t wind ud lr sleep on disp buzz eco heat health"
proof (intro conjI)
  show "exec_writes (mode_writes mode @ wind_writes wind) c
     = exec_writes (wind_writes wind @ mode_writes mode) c"
    by (rule mode_wind_commute)
  show "exec_writes (field_writes_swapped mode t wind sleep on disp buzz eco heat health) c
     = exec_writes (field_writes mode t wind sleep on disp buzz eco heat health) c"
    by (rule field_writes_swapped_exec)
  have "exec_writes
          (field_writes_swapped mode t wind sleep on disp buzz eco heat health
             @ swing_writes ud lr) command_template
      = exec_writes
          (command_writes mode t wind ud lr sleep on disp buzz eco heat health)
          command_template"
    unfolding command_writes_def exec_writes_append[of _ "swing_writes ud lr"]
    by (simp only: field_writes_swapped_exec)
  then show "generate_message_swapped mode t wind ud lr sleep on disp buzz eco heat health
     = generate_message mode t wind ud lr sleep on disp buzz eco heat health"
    by (simp only: generate_message_swapped_def generate_message_def)
qed

text \<open>
  C8 as stated fails: there is no input with a fan speed other than \<open>AUTO\<close>, \<open>MUTE\<close>
  and \<open>SIX\<close> on which the exchanged order builds a body different from the one the
  implemented order builds.
\<close>

theorem swapped_order_counterexample:
  "\<not> (\<exists>mode t wind sleep on disp buzz eco heat health.
        wind \<notin> {WindSpeed_AUTO, WindSpeed_MUTE, WindSpeed_SIX} \<and>
        exec_writes (field_writes_swapped mode t wind sleep on disp buzz eco heat health)
            command_template
          \<noteq> encode_fields mode t wind sleep on disp buzz eco heat health)"
  by (simp add: encode_fields_def field_writes_swapped_exec)

end
